theory Spec2Isabelle
  imports Complex_Main
begin

section \<open>Campaign funnel simulation: the two scripts\<close>

text \<open>
  The repository holds two scripts that compute the same marketing funnel
  (views, clicks, conversions, revenue, profit, ROI) over four named scenarios:
  \<^verbatim>\<open>simulate.py\<close> (variant 1, parameters from the command line) and
  \<^verbatim>\<open>simulation.py\<close> (variant 2, everything fixed in the script).

  Python's \<^verbatim>\<open>float\<close> is modelled by \<^typ>\<open>real\<close>: every product and quotient is
  the exact one, so rounding to binary64, infinities and NaN are outside the model.
  Python's \<^verbatim>\<open>int\<close> is \<^typ>\<open>int\<close>, and an \<^verbatim>\<open>int\<close> meeting a \<^verbatim>\<open>float\<close> in
  an operation is converted by \<^term>\<open>of_int\<close>, as Python does. The one exception the
  arithmetic of the scripts can raise, \<^verbatim>\<open>ZeroDivisionError\<close>, is a value.
\<close>

subsection \<open>Errors and division\<close>

datatype error = ZeroDivisionError

text \<open>Python's \<^verbatim>\<open>a / b\<close> on numbers: raises when the divisor is zero.\<close>

definition truediv :: "real \<Rightarrow> real \<Rightarrow> error + real" where
  "truediv a b = (if b = 0 then Inl ZeroDivisionError else Inr (a / b))"

subsection \<open>The rows\<close>

text \<open>
  Both scripts build dictionaries with the keys \<^verbatim>\<open>Scenario\<close>, \<^verbatim>\<open>Budget\<close> and
  \<^verbatim>\<open>Days\<close>; a result row adds the six metrics, a scenario of variant 2 adds its
  five assumptions.
\<close>

record scenario_base =
  Scenario :: string
  Budget :: int
  Days :: int

record row = scenario_base +
  Views :: real
  Clicks :: real
  Conversions :: real
  Revenue :: real
  Profit :: real
  ROI :: real

record sim_scenario = scenario_base +
  CPV :: real
  CTR :: real
  ConvRate :: real
  RevenuePerSale :: int
  ProfitPerSale :: int

subsection \<open>Variant 1: \<^verbatim>\<open>simulate.py\<close>\<close>

text \<open>A scenario tuple \<^verbatim>\<open>(name, budget, days, cpv, ctr, conv)\<close>.\<close>

type_synonym scenario = "string \<times> int \<times> int \<times> real \<times> real \<times> real"

text \<open>The list \<^verbatim>\<open>scenarios\<close> that \<^verbatim>\<open>run_scenarios\<close> builds from its arguments.\<close>

definition scenarios ::
  "real \<Rightarrow> real \<Rightarrow> real \<Rightarrow> real \<Rightarrow> real \<Rightarrow> real \<Rightarrow> scenario list" where
  "scenarios cpv_small cpv_large ctr_small ctr_large conv_small conv_large =
     [(''Small'', 100, 5, cpv_small, ctr_small, conv_small),
      (''Baseline'', 200, 10, cpv_small, ctr_small, conv_small),
      (''Large'', 500, 30, cpv_large, ctr_large, conv_large),
      (''Long'', 400, 60, cpv_large, ctr_large, conv_large)]"

text \<open>
  The body of the \<^verbatim>\<open>for\<close> loop of \<^verbatim>\<open>run_scenarios\<close>, for one scenario tuple: the
  row it appends, or the exception of \<^verbatim>\<open>budget / cpv\<close>. The division by the budget
  is behind the test \<^verbatim>\<open>budget != 0\<close>.
\<close>

fun scenario_metrics :: "real \<Rightarrow> real \<Rightarrow> scenario \<Rightarrow> error + row" where
  "scenario_metrics revenue_per_sale profit_per_sale (name, budget, days, cpv, ctr, conv) =
     (case truediv (of_int budget) cpv of
        Inl e \<Rightarrow> Inl e
      | Inr views \<Rightarrow>
          (let clicks = views * ctr;
               conversions = clicks * conv;
               revenue = conversions * revenue_per_sale;
               profit = conversions * profit_per_sale
           in case (if budget \<noteq> 0 then truediv revenue (of_int budget) else Inr 0) of
                Inl e \<Rightarrow> Inl e
              | Inr roi \<Rightarrow>
                  Inr \<lparr>Scenario = name, Budget = budget, Days = days,
                       Views = views, Clicks = clicks, Conversions = conversions,
                       Revenue = revenue, Profit = profit, ROI = roi\<rparr>))"

text \<open>
  The loop: \<^verbatim>\<open>results\<close> grows by one row per scenario, and an exception leaves the
  loop (and the function) at once.
\<close>

fun scenarios_loop :: "real \<Rightarrow> real \<Rightarrow> scenario list \<Rightarrow> row list \<Rightarrow> error + row list" where
  "scenarios_loop revenue_per_sale profit_per_sale [] results = Inr results"
| "scenarios_loop revenue_per_sale profit_per_sale (s # ss) results =
     (case scenario_metrics revenue_per_sale profit_per_sale s of
        Inl e \<Rightarrow> Inl e
      | Inr r \<Rightarrow> scenarios_loop revenue_per_sale profit_per_sale ss (results @ [r]))"

definition run_scenarios ::
  "real \<Rightarrow> real \<Rightarrow> real \<Rightarrow> real \<Rightarrow> real \<Rightarrow> real \<Rightarrow> real \<Rightarrow> real \<Rightarrow> error + row list" where
  "run_scenarios cpv_small cpv_large ctr_small ctr_large conv_small conv_large
       revenue_per_sale profit_per_sale =
     scenarios_loop revenue_per_sale profit_per_sale
       (scenarios cpv_small cpv_large ctr_small ctr_large conv_small conv_large) []"

text \<open>
  The namespace of \<^verbatim>\<open>parse_args\<close> and its defaults, the values of a run with no
  command-line argument.
\<close>

record args =
  args_output :: "string option"
  args_cpv_small :: real
  args_cpv_large :: real
  args_ctr_small :: real
  args_ctr_large :: real
  args_conv_small :: real
  args_conv_large :: real
  args_revenue_per_sale :: real
  args_profit_per_sale :: real

definition parse_args_defaults :: args where
  "parse_args_defaults =
     \<lparr>args_output = None, args_cpv_small = 0.06, args_cpv_large = 0.05, args_ctr_small = 0.05,
      args_ctr_large = 0.06, args_conv_small = 0.04, args_conv_large = 0.05,
      args_revenue_per_sale = 100, args_profit_per_sale = 50\<rparr>"

text \<open>The call of \<^verbatim>\<open>run_scenarios\<close> in \<^verbatim>\<open>main\<close>.\<close>

definition main_results :: "args \<Rightarrow> error + row list" where
  "main_results a =
     run_scenarios (args_cpv_small a) (args_cpv_large a) (args_ctr_small a) (args_ctr_large a)
       (args_conv_small a) (args_conv_large a) (args_revenue_per_sale a) (args_profit_per_sale a)"

subsection \<open>Variant 2: \<^verbatim>\<open>simulation.py\<close>\<close>

text \<open>The list \<^verbatim>\<open>scenarios\<close> of \<^verbatim>\<open>run_simulation\<close>.\<close>

definition simulation_scenarios :: "sim_scenario list" where
  "simulation_scenarios =
     [\<lparr>Scenario = ''Small'', Budget = 100, Days = 5, CPV = 0.06, CTR = 0.05,
       ConvRate = 0.04, RevenuePerSale = 100, ProfitPerSale = 50\<rparr>,
      \<lparr>Scenario = ''Baseline'', Budget = 200, Days = 10, CPV = 0.06, CTR = 0.05,
       ConvRate = 0.04, RevenuePerSale = 100, ProfitPerSale = 50\<rparr>,
      \<lparr>Scenario = ''Large'', Budget = 500, Days = 30, CPV = 0.05, CTR = 0.06,
       ConvRate = 0.05, RevenuePerSale = 100, ProfitPerSale = 50\<rparr>,
      \<lparr>Scenario = ''Long'', Budget = 400, Days = 60, CPV = 0.05, CTR = 0.06,
       ConvRate = 0.05, RevenuePerSale = 100, ProfitPerSale = 50\<rparr>]"

text \<open>
  The body of the loop of \<^verbatim>\<open>run_simulation\<close> for one scenario dictionary. Here
  the ROI is \<^verbatim>\<open>profit / budget\<close>, with no test on the budget.
\<close>

definition simulation_metrics :: "sim_scenario \<Rightarrow> error + row" where
  "simulation_metrics s =
     (let budget = Budget s in
      case truediv (of_int budget) (CPV s) of
        Inl e \<Rightarrow> Inl e
      | Inr views \<Rightarrow>
          (let clicks = views * CTR s;
               conversions = clicks * ConvRate s;
               revenue = conversions * of_int (RevenuePerSale s);
               profit = conversions * of_int (ProfitPerSale s)
           in case truediv profit (of_int budget) of
                Inl e \<Rightarrow> Inl e
              | Inr roi \<Rightarrow>
                  Inr \<lparr>Scenario = Scenario s, Budget = budget, Days = Days s,
                       Views = views, Clicks = clicks, Conversions = conversions,
                       Revenue = revenue, Profit = profit, ROI = roi\<rparr>))"

fun simulation_loop :: "sim_scenario list \<Rightarrow> row list \<Rightarrow> error + row list" where
  "simulation_loop [] rows = Inr rows"
| "simulation_loop (s # ss) rows =
     (case simulation_metrics s of
        Inl e \<Rightarrow> Inl e
      | Inr r \<Rightarrow> simulation_loop ss (rows @ [r]))"

text \<open>The list \<^verbatim>\<open>rows\<close> of \<^verbatim>\<open>run_simulation\<close> when its loop is over.\<close>

definition simulation_rows :: "error + row list" where
  "simulation_rows = simulation_loop simulation_scenarios []"

subsection \<open>CSV output\<close>

text \<open>
  Both scripts hand their rows to a library that writes CSV: \<^verbatim>\<open>csv.DictWriter\<close> in
  variant 1, \<^verbatim>\<open>pandas.DataFrame.to_csv\<close> in variant 2. The libraries are modelled as
  their documentation describes them, as far as the scripts use them: fields separated
  by a comma, a field quoted only when it holds the delimiter, the quote character or a
  character of the line terminator (\<^verbatim>\<open>QUOTE_MINIMAL\<close>), every record ended by the line
  terminator. How Python prints a number (\<^verbatim>\<open>str\<close> of an \<^verbatim>\<open>int\<close>, \<^verbatim>\<open>repr\<close> of a
  \<^verbatim>\<open>float\<close>) is not part of the model: the two printers are parameters, \<open>str_int\<close>
  and \<open>repr_float\<close>, of everything that writes a file. A file system is a map from
  paths to the text of the files.
\<close>

datatype cell = CStr string | CInt int | CFloat real

type_synonym files = "string \<rightharpoonup> string"

text \<open>
  The row dictionary with its keys in insertion order, as the loops of both scripts
  build it.
\<close>

definition row_items :: "row \<Rightarrow> (string \<times> cell) list" where
  "row_items r =
     [(''Scenario'', CStr (Scenario r)), (''Budget'', CInt (Budget r)), (''Days'', CInt (Days r)),
      (''Views'', CFloat (Views r)), (''Clicks'', CFloat (Clicks r)),
      (''Conversions'', CFloat (Conversions r)), (''Revenue'', CFloat (Revenue r)),
      (''Profit'', CFloat (Profit r)), (''ROI'', CFloat (ROI r))]"

fun cell_text :: "(int \<Rightarrow> string) \<Rightarrow> (real \<Rightarrow> string) \<Rightarrow> cell \<Rightarrow> string" where
  "cell_text str_int repr_float (CStr s) = s"
| "cell_text str_int repr_float (CInt i) = str_int i"
| "cell_text str_int repr_float (CFloat x) = repr_float x"

text \<open>Python's \<^verbatim>\<open>sep.join(xs)\<close>.\<close>

fun join :: "string \<Rightarrow> string list \<Rightarrow> string" where
  "join sep [] = []"
| "join sep [x] = x"
| "join sep (x # y # ys) = x @ sep @ join sep (y # ys)"

definition quoted :: "string \<Rightarrow> string" where
  "quoted s =
     [CHR 0x22] @ concat (map (\<lambda>c. if c = CHR 0x22 then [c, c] else [c]) s) @ [CHR 0x22]"

definition csv_field :: "string \<Rightarrow> string \<Rightarrow> string" where
  "csv_field lineterminator s =
     (if list_ex (\<lambda>c. c = CHR '','' \<or> c = CHR 0x22 \<or> c \<in> set lineterminator) s
      then quoted s else s)"

text \<open>\<^verbatim>\<open>writer.writerow\<close>: one record of the file.\<close>

definition writerow ::
  "(int \<Rightarrow> string) \<Rightarrow> (real \<Rightarrow> string) \<Rightarrow> string \<Rightarrow> cell list \<Rightarrow> string" where
  "writerow str_int repr_float lineterminator cells =
     join '','' (map (\<lambda>c. csv_field lineterminator (cell_text str_int repr_float c)) cells)
       @ lineterminator"

text \<open>
  \<^verbatim>\<open>DictWriter\<close> orders the values of a dictionary by \<^verbatim>\<open>fieldnames\<close>, with the empty
  string for a missing key. (It raises \<^verbatim>\<open>ValueError\<close> on a key that is not a field
  name; the keys of \<open>row_items\<close> are the field names of \<^verbatim>\<open>save_to_csv\<close>, so that
  check never fires there.) Its header is the row that maps every field name to itself.
\<close>

definition dict_to_list :: "string list \<Rightarrow> (string \<times> cell) list \<Rightarrow> cell list" where
  "dict_to_list fieldnames rowdict =
     map (\<lambda>key. case map_of rowdict key of Some v \<Rightarrow> v | None \<Rightarrow> CStr []) fieldnames"

definition DictWriter_writerow ::
  "(int \<Rightarrow> string) \<Rightarrow> (real \<Rightarrow> string) \<Rightarrow> string list \<Rightarrow> (string \<times> cell) list \<Rightarrow> string" where
  "DictWriter_writerow str_int repr_float fieldnames rowdict =
     writerow str_int repr_float [CHR 0x0D, CHR 0x0A] (dict_to_list fieldnames rowdict)"

definition DictWriter_writeheader ::
  "(int \<Rightarrow> string) \<Rightarrow> (real \<Rightarrow> string) \<Rightarrow> string list \<Rightarrow> string" where
  "DictWriter_writeheader str_int repr_float fieldnames =
     DictWriter_writerow str_int repr_float fieldnames (zip fieldnames (map CStr fieldnames))"

text \<open>
  \<^verbatim>\<open>save_to_csv\<close> of variant 1: the header, then the loop over \<^verbatim>\<open>results\<close>; the
  file at \<^verbatim>\<open>output_path\<close> is replaced by what was written.
\<close>

definition fieldnames :: "string list" where
  "fieldnames = [''Scenario'', ''Budget'', ''Days'', ''Views'', ''Clicks'', ''Conversions'',
                 ''Revenue'', ''Profit'', ''ROI'']"

fun save_loop ::
  "(int \<Rightarrow> string) \<Rightarrow> (real \<Rightarrow> string) \<Rightarrow> row list \<Rightarrow> string \<Rightarrow> string" where
  "save_loop str_int repr_float [] csvfile = csvfile"
| "save_loop str_int repr_float (r # results) csvfile =
     save_loop str_int repr_float results
       (csvfile @ DictWriter_writerow str_int repr_float fieldnames (row_items r))"

definition save_to_csv ::
  "(int \<Rightarrow> string) \<Rightarrow> (real \<Rightarrow> string) \<Rightarrow> row list \<Rightarrow> string \<Rightarrow> files \<Rightarrow> files" where
  "save_to_csv str_int repr_float results output_path fs =
     fs(output_path \<mapsto>
          save_loop str_int repr_float results
            (DictWriter_writeheader str_int repr_float fieldnames))"

text \<open>
  Variant 2: the columns of \<^verbatim>\<open>pd.DataFrame(rows)\<close> are the keys of the row
  dictionaries in the order of their first appearance; \<^verbatim>\<open>to_csv(path, index=False)\<close>
  writes the column names, then one record per row, each ended by \<^verbatim>\<open>os.linesep\<close>.
\<close>

datatype platform = Posix | Windows

fun os_linesep :: "platform \<Rightarrow> string" where
  "os_linesep Posix = [CHR 0x0A]"
| "os_linesep Windows = [CHR 0x0D, CHR 0x0A]"

definition DataFrame_columns :: "(string \<times> cell) list list \<Rightarrow> string list" where
  "DataFrame_columns dicts =
     fold (\<lambda>key cols. if key \<in> set cols then cols else cols @ [key])
       (concat (map (map fst) dicts)) []"

definition to_csv ::
  "(int \<Rightarrow> string) \<Rightarrow> (real \<Rightarrow> string) \<Rightarrow> platform \<Rightarrow> (string \<times> cell) list list \<Rightarrow> string" where
  "to_csv str_int repr_float os dicts =
     (let columns = DataFrame_columns dicts
      in writerow str_int repr_float (os_linesep os) (map CStr columns) @
         concat (map (\<lambda>d. writerow str_int repr_float (os_linesep os) (dict_to_list columns d))
                   dicts))"

text \<open>
  \<^verbatim>\<open>run_simulation\<close>: the rows, and the file \<^verbatim>\<open>simulation_results.csv\<close> written
  on the way. (The chart it also saves is a picture of the same rows and is left out.)
\<close>

definition run_simulation ::
  "(int \<Rightarrow> string) \<Rightarrow> (real \<Rightarrow> string) \<Rightarrow> platform \<Rightarrow> files \<Rightarrow> error + (row list \<times> files)" where
  "run_simulation str_int repr_float os fs =
     (case simulation_rows of
        Inl e \<Rightarrow> Inl e
      | Inr rows \<Rightarrow>
          Inr (rows, fs(''simulation_results.csv'' \<mapsto>
                          to_csv str_int repr_float os (map row_items rows))))"

subsection \<open>The funnel, as the specification words it\<close>

text \<open>
  The equations of the specification's data model, for a result row \<open>r\<close> and the
  assumptions of its scenario.
\<close>

definition funnel_equations :: "real \<Rightarrow> real \<Rightarrow> real \<Rightarrow> real \<Rightarrow> real \<Rightarrow> row \<Rightarrow> bool" where
  "funnel_equations cpv ctr conv rps pps r \<longleftrightarrow>
     Views r = of_int (Budget r) / cpv \<and>
     Clicks r = Views r * ctr \<and>
     Conversions r = Clicks r * conv \<and>
     Revenue r = Conversions r * rps \<and>
     Profit r = Conversions r * pps"

text \<open>The six computed metrics of a row.\<close>

definition metrics :: "row \<Rightarrow> real \<times> real \<times> real \<times> real \<times> real \<times> real" where
  "metrics r = (Views r, Clicks r, Conversions r, Revenue r, Profit r, ROI r)"

section \<open>What one iteration and one run return\<close>

lemma scenario_metrics_returns:
  "cpv \<noteq> 0 \<Longrightarrow>
   scenario_metrics rps pps (name, budget, days, cpv, ctr, conv) =
     Inr \<lparr>Scenario = name, Budget = budget, Days = days,
          Views = of_int budget / cpv,
          Clicks = of_int budget / cpv * ctr,
          Conversions = of_int budget / cpv * ctr * conv,
          Revenue = of_int budget / cpv * ctr * conv * rps,
          Profit = of_int budget / cpv * ctr * conv * pps,
          ROI = (if budget \<noteq> 0
                 then of_int budget / cpv * ctr * conv * rps / of_int budget else 0)\<rparr>"
  by (simp add: truediv_def Let_def)

lemma scenario_metrics_raises:
  "scenario_metrics rps pps (name, budget, days, 0, ctr, conv) = Inl ZeroDivisionError"
  by (simp add: truediv_def)

declare scenario_metrics.simps [simp del]

lemma run_scenarios_raises:
  "cpv_small = 0 \<or> cpv_large = 0 \<Longrightarrow>
   run_scenarios cpv_small cpv_large ctr_small ctr_large conv_small conv_large rps pps =
     Inl ZeroDivisionError"
  by (cases "cpv_small = 0")
     (auto simp: run_scenarios_def scenarios_def scenario_metrics_raises scenario_metrics_returns)

lemma run_scenarios_returns:
  "cpv_small \<noteq> 0 \<Longrightarrow> cpv_large \<noteq> 0 \<Longrightarrow>
   run_scenarios cpv_small cpv_large ctr_small ctr_large conv_small conv_large rps pps =
     Inr (map (\<lambda>s. projr (scenario_metrics rps pps s))
            (scenarios cpv_small cpv_large ctr_small ctr_large conv_small conv_large))"
  by (simp add: run_scenarios_def scenarios_def scenario_metrics_returns)

lemma run_scenarios_Inr_nonzero:
  assumes "run_scenarios cpv_small cpv_large ctr_small ctr_large conv_small conv_large rps pps
             = Inr rs"
  shows "cpv_small \<noteq> 0 \<and> cpv_large \<noteq> 0"
  using assms run_scenarios_raises [of cpv_small cpv_large] by auto

lemma simulation_rows_returns:
  "simulation_rows = Inr (map (\<lambda>s. projr (simulation_metrics s)) simulation_scenarios)"
  by (simp add: simulation_rows_def simulation_scenarios_def simulation_metrics_def
      truediv_def Let_def)

section \<open>The funnel equations\<close>

text \<open>
  C1. For every scenario processed by either variant the funnel equations hold:
  views = budget / cpv, clicks = views * ctr, conversions = clicks * conversion rate,
  revenue = conversions * revenue per sale, profit = conversions * profit per sale.
  Whenever \<^verbatim>\<open>run_scenarios\<close> returns, its rows pair off with the scenario tuples
  and each row satisfies the equations for the assumptions of its tuple; it does
  return when neither cost per view is zero. The loop of \<^verbatim>\<open>run_simulation\<close>
  always ends, with rows that satisfy the equations for its scenario dictionaries.
\<close>

theorem funnel_pipeline_equations:
  "(\<forall>rs. run_scenarios cpv_small cpv_large ctr_small ctr_large conv_small conv_large rps pps
           = Inr rs \<longrightarrow>
      list_all2 (\<lambda>(name, budget, days, cpv, ctr, conv) r.
                   Budget r = budget \<and> funnel_equations cpv ctr conv rps pps r)
        (scenarios cpv_small cpv_large ctr_small ctr_large conv_small conv_large) rs) \<and>
   (cpv_small \<noteq> 0 \<and> cpv_large \<noteq> 0 \<longrightarrow>
      (\<exists>rs. run_scenarios cpv_small cpv_large ctr_small ctr_large conv_small conv_large
              rps pps = Inr rs)) \<and>
   (\<exists>rs. simulation_rows = Inr rs \<and>
      list_all2 (\<lambda>s r. Budget r = Budget s \<and>
                   funnel_equations (CPV s) (CTR s) (ConvRate s)
                     (of_int (RevenuePerSale s)) (of_int (ProfitPerSale s)) r)
        simulation_scenarios rs)"
proof (intro conjI allI impI)
  fix rs
  assume ret: "run_scenarios cpv_small cpv_large ctr_small ctr_large conv_small conv_large
                 rps pps = Inr rs"
  have "cpv_small \<noteq> 0 \<and> cpv_large \<noteq> 0"
    using ret by (rule run_scenarios_Inr_nonzero)
  then show "list_all2 (\<lambda>(name, budget, days, cpv, ctr, conv) r.
                   Budget r = budget \<and> funnel_equations cpv ctr conv rps pps r)
        (scenarios cpv_small cpv_large ctr_small ctr_large conv_small conv_large) rs"
    using ret
    by (auto simp: run_scenarios_returns scenarios_def scenario_metrics_returns
        funnel_equations_def)
next
  assume "cpv_small \<noteq> 0 \<and> cpv_large \<noteq> 0"
  then show "\<exists>rs. run_scenarios cpv_small cpv_large ctr_small ctr_large conv_small conv_large
                  rps pps = Inr rs"
    by (simp add: run_scenarios_returns)
next
  show "\<exists>rs. simulation_rows = Inr rs \<and>
      list_all2 (\<lambda>s r. Budget r = Budget s \<and>
                   funnel_equations (CPV s) (CTR s) (ConvRate s)
                     (of_int (RevenuePerSale s)) (of_int (ProfitPerSale s)) r)
        simulation_scenarios rs"
    by (simp add: simulation_rows_returns simulation_scenarios_def simulation_metrics_def
        truediv_def Let_def funnel_equations_def)
qed

theorem funnel_pipeline_equations_witness:
  "\<exists>rs. run_scenarios 0.06 0.05 0.05 0.06 0.04 0.05 100 50 = Inr rs \<and>
      list_all2 (\<lambda>(name, budget, days, cpv, ctr, conv) r.
                   Budget r = budget \<and> funnel_equations cpv ctr conv 100 50 r)
        (scenarios 0.06 0.05 0.05 0.06 0.04 0.05) rs"
  using funnel_pipeline_equations [of "0.06" "0.05" "0.05" "0.06" "0.04" "0.05" 100 50]
  by fastforce

section \<open>Return on investment\<close>

text \<open>
  C2. In variant 1 the ROI of every row that \<^verbatim>\<open>run_scenarios\<close> returns is revenue /
  budget, for all four scenarios: the budgets are the nonzero constants of the scenario
  list, so the guarded branch is never taken. The witness is the run with the default
  parameters of \<^verbatim>\<open>parse_args\<close>.
\<close>

theorem roi_is_revenue_over_budget:
  assumes "run_scenarios cpv_small cpv_large ctr_small ctr_large conv_small conv_large rps pps
             = Inr rs"
  shows "map Scenario rs = [''Small'', ''Baseline'', ''Large'', ''Long''] \<and>
         list_all (\<lambda>r. Budget r \<noteq> 0 \<and> ROI r = Revenue r / of_int (Budget r)) rs"
proof -
  have "cpv_small \<noteq> 0 \<and> cpv_large \<noteq> 0"
    using assms by (rule run_scenarios_Inr_nonzero)
  then show ?thesis
    using assms
    by (auto simp: run_scenarios_returns scenarios_def scenario_metrics_returns)
qed

theorem roi_is_revenue_over_budget_witness:
  "\<exists>rs. main_results parse_args_defaults = Inr rs \<and>
      map Scenario rs = [''Small'', ''Baseline'', ''Large'', ''Long''] \<and>
      list_all (\<lambda>r. Budget r \<noteq> 0 \<and> ROI r = Revenue r / of_int (Budget r)) rs"
proof -
  obtain rs where run: "run_scenarios 0.06 0.05 0.05 0.06 0.04 0.05 100 50 = Inr rs"
    by (simp add: run_scenarios_returns)
  then have main: "main_results parse_args_defaults = Inr rs"
    by (simp add: main_results_def parse_args_defaults_def)
  note rows = roi_is_revenue_over_budget [OF run]
  from main rows [THEN conjunct1] rows [THEN conjunct2] show ?thesis
    by (intro exI conjI)
qed

text \<open>
  C3. The two variants compute ROI differently. On the same scenario, with a positive
  budget and a nonzero cost per view, both loop bodies return a row; variant 1 has
  ROI = revenue / budget, variant 2 has ROI = profit / budget, every other field is
  the same, and the two ROI values differ exactly when the scenario has conversions
  (CTR and conversion rate nonzero) and profit per sale is not revenue per sale. The
  default run of variant 1 and the run of variant 2 are such a case: row by row they
  agree on everything but the ROI, and the ROI differs in all four rows.
\<close>

theorem roi_differs_between_variants:
  "(0 < Budget s \<and> CPV s \<noteq> 0 \<longrightarrow>
      (\<exists>r1 r2.
         scenario_metrics (of_int (RevenuePerSale s)) (of_int (ProfitPerSale s))
           (Scenario s, Budget s, Days s, CPV s, CTR s, ConvRate s) = Inr r1 \<and>
         simulation_metrics s = Inr r2 \<and>
         ROI r1 = Revenue r1 / of_int (Budget s) \<and>
         ROI r2 = Profit r2 / of_int (Budget s) \<and>
         r1\<lparr>ROI := ROI r2\<rparr> = r2 \<and>
         (ROI r1 \<noteq> ROI r2 \<longleftrightarrow>
            CTR s \<noteq> 0 \<and> ConvRate s \<noteq> 0 \<and> RevenuePerSale s \<noteq> ProfitPerSale s))) \<and>
   (\<exists>rs1 rs2.
      main_results parse_args_defaults = Inr rs1 \<and> simulation_rows = Inr rs2 \<and>
      list_all2 (\<lambda>r1 r2. r1\<lparr>ROI := ROI r2\<rparr> = r2 \<and> ROI r1 \<noteq> ROI r2) rs1 rs2)"
proof (intro conjI impI)
  assume pos: "0 < Budget s \<and> CPV s \<noteq> 0"
  define k where "k = CTR s * ConvRate s / CPV s"
  have b: "real_of_int (Budget s) \<noteq> 0" and c: "CPV s \<noteq> 0"
    using pos by simp_all
  have roi1: "real_of_int (Budget s) / CPV s * CTR s * ConvRate s * x / real_of_int (Budget s)
                = k * x" for x
    using b by (simp add: k_def)
  have differ: "k * real_of_int (RevenuePerSale s) \<noteq> k * real_of_int (ProfitPerSale s) \<longleftrightarrow>
          CTR s \<noteq> 0 \<and> ConvRate s \<noteq> 0 \<and> RevenuePerSale s \<noteq> ProfitPerSale s"
    using c by (auto simp: k_def)
  show "\<exists>r1 r2.
         scenario_metrics (of_int (RevenuePerSale s)) (of_int (ProfitPerSale s))
           (Scenario s, Budget s, Days s, CPV s, CTR s, ConvRate s) = Inr r1 \<and>
         simulation_metrics s = Inr r2 \<and>
         ROI r1 = Revenue r1 / of_int (Budget s) \<and>
         ROI r2 = Profit r2 / of_int (Budget s) \<and>
         r1\<lparr>ROI := ROI r2\<rparr> = r2 \<and>
         (ROI r1 \<noteq> ROI r2 \<longleftrightarrow>
            CTR s \<noteq> 0 \<and> ConvRate s \<noteq> 0 \<and> RevenuePerSale s \<noteq> ProfitPerSale s)"
    using pos differ
    by (simp add: scenario_metrics_returns simulation_metrics_def truediv_def Let_def roi1)
next
  show "\<exists>rs1 rs2.
      main_results parse_args_defaults = Inr rs1 \<and> simulation_rows = Inr rs2 \<and>
      list_all2 (\<lambda>r1 r2. r1\<lparr>ROI := ROI r2\<rparr> = r2 \<and> ROI r1 \<noteq> ROI r2) rs1 rs2"
    by (simp add: main_results_def parse_args_defaults_def run_scenarios_returns scenarios_def
        scenario_metrics_returns simulation_rows_returns simulation_scenarios_def
        simulation_metrics_def truediv_def Let_def)
qed

theorem roi_differs_between_variants_witness:
  "\<exists>r1 r2.
     scenario_metrics 100 50 (''Small'', 100, 5, 0.06, 0.05, 0.04) = Inr r1 \<and>
     simulation_metrics (hd simulation_scenarios) = Inr r2 \<and>
     r1\<lparr>ROI := ROI r2\<rparr> = r2 \<and> ROI r1 \<noteq> ROI r2"
proof -
  let ?s = "hd simulation_scenarios"
  have s: "?s = \<lparr>Scenario = ''Small'', Budget = 100, Days = 5, CPV = 0.06, CTR = 0.05,
                  ConvRate = 0.04, RevenuePerSale = 100, ProfitPerSale = 50\<rparr>"
    by (simp add: simulation_scenarios_def)
  have pre: "0 < Budget ?s \<and> CPV ?s \<noteq> 0"
    by (simp add: s)
  from roi_differs_between_variants [of ?s, THEN conjunct1, rule_format, OF pre]
  obtain r1 r2 where
    v1: "scenario_metrics (of_int (RevenuePerSale ?s)) (of_int (ProfitPerSale ?s))
           (Scenario ?s, Budget ?s, Days ?s, CPV ?s, CTR ?s, ConvRate ?s) = Inr r1" and
    v2: "simulation_metrics ?s = Inr r2" and
    same: "r1\<lparr>ROI := ROI r2\<rparr> = r2" and
    differ: "ROI r1 \<noteq> ROI r2 \<longleftrightarrow>
               CTR ?s \<noteq> 0 \<and> ConvRate ?s \<noteq> 0 \<and> RevenuePerSale ?s \<noteq> ProfitPerSale ?s"
    by blast
  have v1': "scenario_metrics 100 50 (''Small'', 100, 5, 0.06, 0.05, 0.04) = Inr r1"
    using v1 by (simp add: s)
  have differ': "ROI r1 \<noteq> ROI r2"
    using differ by (simp add: s)
  from v1' v2 same differ' show ?thesis
    by (intro exI conjI)
qed

section \<open>Division by zero\<close>

text \<open>
  C4, as the specification states it: in variant 1 the division by zero is guarded,
  for a zero budget and for a zero cost per view, and a scenario with zero budget does
  not crash. The loop body divides by \<^verbatim>\<open>cpv\<close> with no test, so a zero cost per view
  raises: for a zero-budget scenario, and for the whole run when \<^verbatim>\<open>--cpv_small 0\<close>
  is given.
\<close>

theorem zero_cpv_raises:
  "scenario_metrics 100 50 (''Small'', 0, 5, 0, 0.05, 0.04) = Inl ZeroDivisionError \<and>
   run_scenarios 0 0.05 0.05 0.06 0.04 0.05 100 50 = Inl ZeroDivisionError"
  by (simp add: scenario_metrics_raises run_scenarios_raises)

text \<open>
  C4, amended: in variant 1 the division by the budget is guarded. A scenario with
  zero budget whose cost per view is not zero does not crash, and its ROI resolves
  to 0.
\<close>

theorem zero_budget_roi_is_zero:
  assumes "cpv \<noteq> 0"
  shows "\<exists>r. scenario_metrics rps pps (name, 0, days, cpv, ctr, conv) = Inr r \<and>
             Budget r = 0 \<and> ROI r = 0"
  using assms by (simp add: scenario_metrics_returns)

theorem zero_budget_roi_is_zero_witness:
  "\<exists>r. scenario_metrics 100 50 (''Small'', 0, 5, 0.06, 0.05, 0.04) = Inr r \<and>
       Budget r = 0 \<and> ROI r = 0"
proof -
  have nz: "(0.06::real) \<noteq> 0" by simp
  show ?thesis by (rule zero_budget_roi_is_zero [OF nz])
qed

section \<open>The default run\<close>

text \<open>
  C5. With the default parameters of \<^verbatim>\<open>parse_args\<close> the first row of variant 1 is
  the Small scenario (budget 100, cpv 0.06, ctr 0.05, conversion rate 0.04, revenue per
  sale 100) with views 5000/3, clicks 250/3, conversions 10/3, revenue 1000/3 and
  ROI 10/3: to two decimal places 1666.67, 83.33, 3.33, 333.33 and 3.33 (each value is
  less than half a hundredth away from its decimal).
\<close>

theorem default_small_scenario_values:
  "\<exists>r rest. main_results parse_args_defaults = Inr (r # rest) \<and>
      Scenario r = ''Small'' \<and> Budget r = 100 \<and>
      Views r = 5000 / 3 \<and> \<bar>Views r - 1666.67\<bar> < 0.005 \<and>
      Clicks r = 250 / 3 \<and> \<bar>Clicks r - 83.33\<bar> < 0.005 \<and>
      Conversions r = 10 / 3 \<and> \<bar>Conversions r - 3.33\<bar> < 0.005 \<and>
      Revenue r = 1000 / 3 \<and> \<bar>Revenue r - 333.33\<bar> < 0.005 \<and>
      ROI r = 10 / 3 \<and> \<bar>ROI r - 3.33\<bar> < 0.005"
  by (simp add: main_results_def parse_args_defaults_def run_scenarios_returns scenarios_def
      scenario_metrics_returns)

section \<open>The scenario table\<close>



section \<open>What the ROI and the metrics depend on\<close>



text \<open>
  C10. The days of a scenario have no influence on any computed metric, in either
  variant: two scenarios that differ only in their days give the same views, clicks,
  conversions, revenue, profit and ROI (or raise the same exception).
\<close>

theorem days_have_no_influence:
  "map_sum id metrics (scenario_metrics rps pps (name, budget, days, cpv, ctr, conv)) =
   map_sum id metrics (scenario_metrics rps pps (name, budget, days', cpv, ctr, conv)) \<and>
   map_sum id metrics (simulation_metrics (s\<lparr>Days := days'\<rparr>)) =
   map_sum id metrics (simulation_metrics s)"
proof
  show "map_sum id metrics (scenario_metrics rps pps (name, budget, days, cpv, ctr, conv)) =
        map_sum id metrics (scenario_metrics rps pps (name, budget, days', cpv, ctr, conv))"
    by (cases "cpv = 0")
       (simp_all add: scenario_metrics_returns scenario_metrics_raises metrics_def)
next
  show "map_sum id metrics (simulation_metrics (s\<lparr>Days := days'\<rparr>)) =
        map_sum id metrics (simulation_metrics s)"
    by (simp add: simulation_metrics_def truediv_def Let_def metrics_def)
qed

section \<open>The CSV files\<close>

lemma header_text:
  "DictWriter_writeheader str_int repr_float fieldnames =
     ''Scenario,Budget,Days,Views,Clicks,Conversions,Revenue,Profit,ROI'' @ [CHR 0x0D, CHR 0x0A]"
  by (simp add: DictWriter_writeheader_def DictWriter_writerow_def dict_to_list_def
      fieldnames_def writerow_def csv_field_def)

lemma to_csv_header:
  "writerow str_int repr_float (os_linesep os) (map CStr fieldnames) =
     ''Scenario,Budget,Days,Views,Clicks,Conversions,Revenue,Profit,ROI'' @ os_linesep os"
  by (cases os) (simp_all add: fieldnames_def writerow_def csv_field_def)

lemma row_cells:
  "dict_to_list fieldnames (row_items r) =
     [CStr (Scenario r), CInt (Budget r), CInt (Days r), CFloat (Views r), CFloat (Clicks r),
      CFloat (Conversions r), CFloat (Revenue r), CFloat (Profit r), CFloat (ROI r)]"
  by (simp add: dict_to_list_def fieldnames_def row_items_def)

lemma writerow_row:
  "writerow str_int repr_float lt (dict_to_list fieldnames (row_items r)) =
     join '','' (map (csv_field lt)
       [Scenario r, str_int (Budget r), str_int (Days r), repr_float (Views r),
        repr_float (Clicks r), repr_float (Conversions r), repr_float (Revenue r),
        repr_float (Profit r), repr_float (ROI r)]) @ lt"
  by (simp add: row_cells writerow_def)

lemma save_loop_concat:
  "save_loop str_int repr_float results csvfile =
     csvfile @
     concat (map (\<lambda>r. DictWriter_writerow str_int repr_float fieldnames (row_items r)) results)"
  by (induction results arbitrary: csvfile) simp_all

lemma fold_known_keys:
  "set keys \<subseteq> set cols \<Longrightarrow>
   fold (\<lambda>key cols. if key \<in> set cols then cols else cols @ [key]) keys cols = cols"
  by (induction keys) simp_all

lemma keys_of_row: "map fst (row_items r) = fieldnames"
  by (simp add: row_items_def fieldnames_def)

lemma columns_of_rows:
  assumes "rows \<noteq> []"
  shows "DataFrame_columns (map row_items rows) = fieldnames"
proof -
  obtain r rs where rows: "rows = r # rs"
    using assms by (cases rows) auto
  have first: "fold (\<lambda>key cols. if key \<in> set cols then cols else cols @ [key])
       (map fst (row_items r)) [] = fieldnames"
    by (simp add: row_items_def fieldnames_def)
  have rest: "set (concat (map (map fst) (map row_items rs))) \<subseteq> set fieldnames"
    by (auto simp: keys_of_row)
  show ?thesis
    unfolding DataFrame_columns_def rows
    using fold_known_keys [OF rest] by (simp add: first)
qed

text \<open>
  C7. Every CSV file written by either variant begins with exactly the header row
  \<^verbatim>\<open>Scenario,Budget,Days,Views,Clicks,Conversions,Revenue,Profit,ROI\<close>, followed by one
  record per row, its nine fields in the order of the header. For variant 1 this is the
  file \<^verbatim>\<open>save_to_csv\<close> leaves at \<^verbatim>\<open>output_path\<close>, for any list of results; for
  variant 2 it is \<^verbatim>\<open>simulation_results.csv\<close>, with the four rows of the run.
\<close>

theorem csv_header_then_rows:
  "save_to_csv str_int repr_float results output_path fs output_path =
     Some (''Scenario,Budget,Days,Views,Clicks,Conversions,Revenue,Profit,ROI''
             @ [CHR 0x0D, CHR 0x0A]
             @ concat (map (\<lambda>r. join '','' (map (csv_field [CHR 0x0D, CHR 0x0A])
                              [Scenario r, str_int (Budget r), str_int (Days r),
                               repr_float (Views r), repr_float (Clicks r),
                               repr_float (Conversions r), repr_float (Revenue r),
                               repr_float (Profit r), repr_float (ROI r)])
                            @ [CHR 0x0D, CHR 0x0A]) results)) \<and>
   (\<exists>rows fs'. run_simulation str_int repr_float os fs = Inr (rows, fs') \<and>
      length rows = 4 \<and>
      fs' ''simulation_results.csv'' =
        Some (''Scenario,Budget,Days,Views,Clicks,Conversions,Revenue,Profit,ROI''
                @ os_linesep os
                @ concat (map (\<lambda>r. join '','' (map (csv_field (os_linesep os))
                                 [Scenario r, str_int (Budget r), str_int (Days r),
                                  repr_float (Views r), repr_float (Clicks r),
                                  repr_float (Conversions r), repr_float (Revenue r),
                                  repr_float (Profit r), repr_float (ROI r)])
                               @ os_linesep os) rows)))"
proof
  show "save_to_csv str_int repr_float results output_path fs output_path =
     Some (''Scenario,Budget,Days,Views,Clicks,Conversions,Revenue,Profit,ROI''
             @ [CHR 0x0D, CHR 0x0A]
             @ concat (map (\<lambda>r. join '','' (map (csv_field [CHR 0x0D, CHR 0x0A])
                              [Scenario r, str_int (Budget r), str_int (Days r),
                               repr_float (Views r), repr_float (Clicks r),
                               repr_float (Conversions r), repr_float (Revenue r),
                               repr_float (Profit r), repr_float (ROI r)])
                            @ [CHR 0x0D, CHR 0x0A]) results))"
    by (simp add: save_to_csv_def save_loop_concat header_text DictWriter_writerow_def
        writerow_row)
next
  let ?rows = "map (\<lambda>s. projr (simulation_metrics s)) simulation_scenarios"
  have ne: "?rows \<noteq> []" and len: "length ?rows = 4"
    by (simp_all add: simulation_scenarios_def)
  have "to_csv str_int repr_float os (map row_items ?rows) =
          ''Scenario,Budget,Days,Views,Clicks,Conversions,Revenue,Profit,ROI''
            @ os_linesep os
            @ concat (map (\<lambda>r. join '','' (map (csv_field (os_linesep os))
                             [Scenario r, str_int (Budget r), str_int (Days r),
                              repr_float (Views r), repr_float (Clicks r),
                              repr_float (Conversions r), repr_float (Revenue r),
                              repr_float (Profit r), repr_float (ROI r)])
                           @ os_linesep os) ?rows)"
    unfolding to_csv_def columns_of_rows [OF ne] Let_def to_csv_header
    by (simp add: writerow_row comp_def)
  then show "\<exists>rows fs'. run_simulation str_int repr_float os fs = Inr (rows, fs') \<and>
      length rows = 4 \<and>
      fs' ''simulation_results.csv'' =
        Some (''Scenario,Budget,Days,Views,Clicks,Conversions,Revenue,Profit,ROI''
                @ os_linesep os
                @ concat (map (\<lambda>r. join '','' (map (csv_field (os_linesep os))
                                 [Scenario r, str_int (Budget r), str_int (Days r),
                                  repr_float (Views r), repr_float (Clicks r),
                                  repr_float (Conversions r), repr_float (Revenue r),
                                  repr_float (Profit r), repr_float (ROI r)])
                               @ os_linesep os) rows))"
    using len by (simp add: run_simulation_def simulation_rows_returns)
qed

end
